theory Spec2Isabelle
  imports Main "HOL-Library.AList" "HOL-Library.Sublist"
begin

section \<open>Text primitives of the Python runtime\<close>

text \<open>
  A Python \<open>str\<close> is modelled as a \<open>string\<close> whose characters are the code points
  0 to 255 (Latin-1). The character classes below are those of Python 3 on that range:
  \<open>[A-Z]\<close>, \<open>[a-z]\<close>, \<open>\d\<close>, \<open>\s\<close>, \<open>\w\<close> of the \<open>re\<close> module on \<open>str\<close> patterns,
  \<open>str.isdigit\<close>, \<open>str.lower\<close> and the blanks that \<open>int()\<close> strips.
\<close>

definition is_upper :: "char \<Rightarrow> bool" where
  "is_upper c = (c \<in> set ''ABCDEFGHIJKLMNOPQRSTUVWXYZ'')"

definition is_lower :: "char \<Rightarrow> bool" where
  "is_lower c = (c \<in> set ''abcdefghijklmnopqrstuvwxyz'')"

definition re_digit :: "char \<Rightarrow> bool" where
  "re_digit c = (c \<in> set ''0123456789'')"

definition re_space :: "char \<Rightarrow> bool" where
  "re_space c = (c \<in> set [CHR 0x09, CHR 0x0A, CHR 0x0B, CHR 0x0C, CHR 0x0D,
                           CHR 0x1C, CHR 0x1D, CHR 0x1E, CHR 0x1F, CHR 0x20,
                           CHR 0x85, CHR 0xA0])"

definition re_word :: "char \<Rightarrow> bool" where
  "re_word c = (is_upper c \<or> is_lower c \<or> re_digit c \<or> c = CHR ''_'' \<or>
                c \<in> set [CHR 0xAA, CHR 0xB2, CHR 0xB3, CHR 0xB5, CHR 0xB9, CHR 0xBA,
                          CHR 0xBC, CHR 0xBD, CHR 0xBE] \<or>
                ((192::nat) \<le> of_char c \<and> c \<noteq> CHR 0xD7 \<and> c \<noteq> CHR 0xF7))"

definition is_hex_upper :: "char \<Rightarrow> bool" where
  "is_hex_upper c = (c \<in> set ''ABCDEF0123456789'')"

definition isdigit_char :: "char \<Rightarrow> bool" where
  "isdigit_char c = (re_digit c \<or> c \<in> set [CHR 0xB2, CHR 0xB3, CHR 0xB9])"

definition isdigit :: "string \<Rightarrow> bool" where
  "isdigit s = (s \<noteq> [] \<and> list_all isdigit_char s)"

definition int_space :: "char \<Rightarrow> bool" where
  "int_space c = (c \<in> set [CHR 0x09, CHR 0x0A, CHR 0x0B, CHR 0x0C, CHR 0x0D, CHR 0x20,
                            CHR 0x85, CHR 0xA0])"

definition lower_char :: "char \<Rightarrow> char" where
  "lower_char c =
     (if is_upper c \<or> ((192::nat) \<le> of_char c \<and> of_char c \<le> (222::nat) \<and> c \<noteq> CHR 0xD7)
      then char_of (of_char c + (32::nat)) else c)"

definition lower :: "string \<Rightarrow> string" where
  "lower s = map lower_char s"

text \<open>\<open>sub in s\<close>: \<open>sub\<close> occurs in \<open>s\<close> as a contiguous substring.\<close>

fun py_in :: "string \<Rightarrow> string \<Rightarrow> bool" where
  "py_in sub [] = (sub = [])"
| "py_in sub (c # cs) = (prefix sub (c # cs) \<or> py_in sub cs)"

text \<open>\<open>s.split()\<close>: the maximal runs of non-blank characters.\<close>

fun split_ws :: "string \<Rightarrow> string \<Rightarrow> string list" where
  "split_ws acc [] = (if acc = [] then [] else [acc])"
| "split_ws acc (c # cs) =
     (if re_space c then (if acc = [] then split_ws [] cs else acc # split_ws [] cs)
      else split_ws (acc @ [c]) cs)"

definition split :: "string \<Rightarrow> string list" where
  "split s = split_ws [] s"

text \<open>\<open>s.split(':')\<close>: the pieces between colons, empty pieces kept.\<close>

fun split_colon :: "string \<Rightarrow> string \<Rightarrow> string list" where
  "split_colon acc [] = [acc]"
| "split_colon acc (c # cs) =
     (if c = CHR '':'' then acc # split_colon [] cs else split_colon (acc @ [c]) cs)"

text \<open>Decimal digits to a number and back (\<open>int\<close> on a digit string, \<open>str\<close> on a number).\<close>

definition digit_val :: "char \<Rightarrow> nat" where
  "digit_val c = of_char c - 48"

definition nat_of_digits :: "string \<Rightarrow> nat" where
  "nat_of_digits s = foldl (\<lambda>a c. 10 * a + digit_val c) 0 s"

fun show_nat :: "nat \<Rightarrow> string" where
  "show_nat n = (if n < 10 then [char_of (48 + n)]
                 else show_nat (n div 10) @ [char_of (48 + n mod 10)])"

declare show_nat.simps [simp del]

definition strip_int :: "string \<Rightarrow> string" where
  "strip_int s = rev (dropWhile int_space (rev (dropWhile int_space s)))"

definition valid_digits :: "string \<Rightarrow> bool" where
  "valid_digits b = (b \<noteq> [] \<and> re_digit (hd b) \<and> re_digit (last b) \<and>
                     list_all (\<lambda>c. re_digit c \<or> c = CHR ''_'') b \<and> \<not> py_in ''__'' b)"

text \<open>
  \<open>int(s)\<close> for a string: blanks stripped at both ends, an optional sign, decimal digits
  with single underscores between them. \<open>None\<close> stands for the \<open>ValueError\<close>. Integers
  are unbounded; the interpreter's limit on the length of a digit string is not modelled.
\<close>

definition py_int :: "string \<Rightarrow> int option" where
  "py_int s =
     (let t = strip_int s;
          neg = (t \<noteq> [] \<and> hd t = CHR ''-'');
          body = (if t \<noteq> [] \<and> (hd t = CHR ''-'' \<or> hd t = CHR ''+'') then tl t else t)
      in if valid_digits body
         then Some ((if neg then - 1 else 1) *
                    int (nat_of_digits (filter (\<lambda>c. c \<noteq> CHR ''_'') body)))
         else None)"

section \<open>Line classifier\<close>

text \<open>
  The regular expressions of the source are written out as scanners. Each \<open>search_\<close>
  function tries the start positions from left to right and returns the capture group of
  the first position where the pattern matches, as \<open>re.search\<close> does.
\<close>

text \<open>\<open>\b\<close> between two neighbouring positions; \<open>None\<close> is the edge of the line.\<close>

definition word_opt :: "char option \<Rightarrow> bool" where
  "word_opt p = (case p of None \<Rightarrow> False | Some c \<Rightarrow> re_word c)"

definition word_boundary :: "char option \<Rightarrow> char option \<Rightarrow> bool" where
  "word_boundary p n = (word_opt p \<noteq> word_opt n)"

definition char_at :: "string \<Rightarrow> nat \<Rightarrow> char option" where
  "char_at s i = (if i < length s then Some (s ! i) else None)"

text \<open>\<open>[A-F0-9]{n}\b\<close> at the head of \<open>s\<close>, for \<open>n > 0\<close>.\<close>

definition match_hex_run :: "nat \<Rightarrow> string \<Rightarrow> string option" where
  "match_hex_run n s =
     (if n \<le> length s \<and> list_all is_hex_upper (take n s) \<and>
         word_boundary (char_at s (n - 1)) (char_at s n)
      then Some (take n s) else None)"

text \<open>
  \<open>\b([A-F0-9]{10,12})\b\<close>: the counted repetition is greedy, so at one start position
  the lengths 12, 11, 10 are tried in that order.
\<close>

fun search_queue_id :: "char option \<Rightarrow> string \<Rightarrow> string option" where
  "search_queue_id p [] = None"
| "search_queue_id p (c # cs) =
     (if word_boundary p (Some c) then
        (case match_hex_run 12 (c # cs) of Some g \<Rightarrow> Some g
         | None \<Rightarrow>
        (case match_hex_run 11 (c # cs) of Some g \<Rightarrow> Some g
         | None \<Rightarrow>
        (case match_hex_run 10 (c # cs) of Some g \<Rightarrow> Some g
         | None \<Rightarrow> search_queue_id (Some c) cs)))
      else search_queue_id (Some c) cs)"

definition extract_queue_id :: "string \<Rightarrow> string option" where
  "extract_queue_id line = search_queue_id None line"

text \<open>
  \<open>key([^>]*)>\<close> for a non-empty literal \<open>key\<close>: after the key the group takes every
  character up to the next \<open>>\<close>, which must exist.
\<close>

fun search_angle :: "string \<Rightarrow> string \<Rightarrow> string option" where
  "search_angle key [] = None"
| "search_angle key (c # cs) =
     (let rest = drop (length key) (c # cs)
      in if prefix key (c # cs) \<and> CHR ''>'' \<in> set rest
         then Some (takeWhile (\<lambda>x. x \<noteq> CHR ''>'') rest)
         else search_angle key cs)"

text \<open>\<open>size=(\d+)\<close>: the group is the longest run of digits after the key.\<close>

fun search_size :: "string \<Rightarrow> string option" where
  "search_size [] = None"
| "search_size (c # cs) =
     (let run = takeWhile re_digit (drop 5 (c # cs))
      in if prefix ''size='' (c # cs) \<and> run \<noteq> [] then Some run else search_size cs)"

text \<open>The three patterns that \<open>process_logs\<close> hands to \<open>extract_field\<close>.\<close>

datatype pattern = From_pat | To_pat | Size_pat

fun extract_field :: "string \<Rightarrow> pattern \<Rightarrow> string option" where
  "extract_field line From_pat = search_angle ''from=<'' line"
| "extract_field line To_pat = search_angle ''to=<'' line"
| "extract_field line Size_pat = search_size line"

text \<open>
  \<open>([A-Z][a-z]{2})\s+(\d+)\s+(\d{2}:\d{2}:\d{2})\<close> at the head of a string. Blanks and
  digits are disjoint classes, so each greedy run can only end where the run of its class
  ends, and one attempt per start position decides the match.
\<close>

definition month_shape :: "string \<Rightarrow> bool" where
  "month_shape m = (case m of [a, b, c] \<Rightarrow> is_upper a \<and> is_lower b \<and> is_lower c | _ \<Rightarrow> False)"

definition clock_shape :: "string \<Rightarrow> bool" where
  "clock_shape t =
     (case t of [h1, h2, c1, m1, m2, c2, s1, s2] \<Rightarrow>
        re_digit h1 \<and> re_digit h2 \<and> c1 = CHR '':'' \<and> re_digit m1 \<and> re_digit m2 \<and>
        c2 = CHR '':'' \<and> re_digit s1 \<and> re_digit s2
      | _ \<Rightarrow> False)"

definition match_timestamp :: "string \<Rightarrow> (string \<times> string \<times> string) option" where
  "match_timestamp s =
     (let month = take 3 s;
          r1 = drop 3 s;
          r2 = dropWhile re_space r1;
          day = takeWhile re_digit r2;
          r3 = dropWhile re_digit r2;
          r4 = dropWhile re_space r3;
          clock = take 8 r4
      in if month_shape month \<and> takeWhile re_space r1 \<noteq> [] \<and> day \<noteq> [] \<and>
            takeWhile re_space r3 \<noteq> [] \<and> clock_shape clock
         then Some (month, day, clock) else None)"

fun search_timestamp :: "string \<Rightarrow> (string \<times> string \<times> string) option" where
  "search_timestamp [] = None"
| "search_timestamp (c # cs) =
     (case match_timestamp (c # cs) of Some g \<Rightarrow> Some g | None \<Rightarrow> search_timestamp cs)"

text \<open>The day is read as a number and printed again, so a leading zero is lost.\<close>

definition extract_timestamp :: "string \<Rightarrow> string option" where
  "extract_timestamp line =
     (case search_timestamp line of
        Some (month, day, clock) \<Rightarrow>
          Some (show_nat (nat_of_digits day) @ '' '' @ month @ '' '' @ clock)
      | None \<Rightarrow> None)"

definition is_blocked :: "string \<Rightarrow> bool" where
  "is_blocked line = (py_in ''NOQUEUE: reject'' line \<or> py_in ''NOQUEUE: filter'' line \<or>
                      py_in ''milter-reject'' line \<or> py_in ''status=bounced'' line \<or>
                      py_in ''status=deferred'' line)"

definition is_sendgrid :: "string \<Rightarrow> bool" where
  "is_sendgrid line = py_in ''smtp_via_transport_maps:smtp.sendgrid.net'' line"

section \<open>Dates of the standard library\<close>

datatype error = ValueError | OverflowError

text \<open>A calendar date as year, month, day; \<open>datetime.now()\<close> is a parameter of this type.\<close>

type_synonym date = "int \<times> int \<times> int"

record datetime =
  dt_year :: int
  dt_month :: int
  dt_day :: int
  dt_hour :: int
  dt_minute :: int
  dt_second :: int

definition is_leap :: "int \<Rightarrow> bool" where
  "is_leap y = (y mod 4 = 0 \<and> (y mod 100 \<noteq> 0 \<or> y mod 400 = 0))"

definition days_in_month :: "int \<Rightarrow> int \<Rightarrow> int" where
  "days_in_month y m =
     (if m = 2 then (if is_leap y then 29 else 28)
      else if m = 4 \<or> m = 6 \<or> m = 9 \<or> m = 11 then 30 else 31)"

text \<open>
  The constructor \<open>datetime(y, m, d, H, M, S)\<close>: an argument that does not fit a C \<open>int\<close>
  raises \<open>OverflowError\<close> while the arguments are converted; after that a field out of
  its calendar range raises \<open>ValueError\<close>.
\<close>

definition c_int :: "int \<Rightarrow> bool" where
  "c_int n = (- 2147483648 \<le> n \<and> n \<le> 2147483647)"

definition mk_datetime :: "int \<Rightarrow> int \<Rightarrow> int \<Rightarrow> int \<Rightarrow> int \<Rightarrow> int \<Rightarrow> error + datetime" where
  "mk_datetime y m d H M S =
     (if \<not> (c_int y \<and> c_int m \<and> c_int d \<and> c_int H \<and> c_int M \<and> c_int S)
      then Inl OverflowError
      else if 1 \<le> y \<and> y \<le> 9999 \<and> 1 \<le> m \<and> m \<le> 12 \<and> 1 \<le> d \<and> d \<le> days_in_month y m \<and>
              0 \<le> H \<and> H \<le> 23 \<and> 0 \<le> M \<and> M \<le> 59 \<and> 0 \<le> S \<and> S \<le> 59
      then Inr \<lparr>dt_year = y, dt_month = m, dt_day = d,
                 dt_hour = H, dt_minute = M, dt_second = S\<rparr>
      else Inl ValueError)"

text \<open>
  \<open>try: return datetime(...) except ValueError: return None\<close>: the \<open>ValueError\<close> becomes
  the result \<open>None\<close>, any other exception leaves the function.
\<close>

definition try_datetime :: "error + datetime \<Rightarrow> error + datetime option" where
  "try_datetime r =
     (case r of
        Inr d \<Rightarrow> Inr (Some d)
      | Inl ValueError \<Rightarrow> Inr None
      | Inl OverflowError \<Rightarrow> Inl OverflowError)"

fun lex_ge :: "int list \<Rightarrow> int list \<Rightarrow> bool" where
  "lex_ge (a # as) (b # bs) = (b < a \<or> (a = b \<and> lex_ge as bs))"
| "lex_ge _ _ = True"

text \<open>\<open>a >= b\<close> on datetimes.\<close>

definition dt_ge :: "datetime \<Rightarrow> datetime \<Rightarrow> bool" where
  "dt_ge a b =
     lex_ge [dt_year a, dt_month a, dt_day a, dt_hour a, dt_minute a, dt_second a]
            [dt_year b, dt_month b, dt_day b, dt_hour b, dt_minute b, dt_second b]"

text \<open>
  \<open>datetime.strptime(s, '%b').month\<close> in the C locale: the whole string is a month
  abbreviation, letter case ignored; \<open>None\<close> stands for the \<open>ValueError\<close>.
\<close>

definition strptime_b :: "string \<Rightarrow> int option" where
  "strptime_b s =
     map_of [(''jan'', 1), (''feb'', 2), (''mar'', 3), (''apr'', 4), (''may'', 5), (''jun'', 6),
             (''jul'', 7), (''aug'', 8), (''sep'', 9), (''oct'', 10), (''nov'', 11), (''dec'', 12)]
            (lower s)"

text \<open>\<open>strftime('%b')\<close> of a date with month \<open>m\<close>.\<close>

definition strftime_b :: "int \<Rightarrow> string" where
  "strftime_b m =
     [''Jan'', ''Feb'', ''Mar'', ''Apr'', ''May'', ''Jun'',
      ''Jul'', ''Aug'', ''Sep'', ''Oct'', ''Nov'', ''Dec''] ! nat (m - 1)"

text \<open>
  \<open>d - timedelta(days=i)\<close>: the date \<open>i\<close> days before \<open>d\<close>, and an \<open>OverflowError\<close> when
  that would lie before 1 January of year 1 (ordinal 1).
\<close>

definition to_ordinal :: "date \<Rightarrow> int" where
  "to_ordinal t =
     (case t of (y, m, d) \<Rightarrow>
        (y - 1) * 365 + (y - 1) div 4 - (y - 1) div 100 + (y - 1) div 400 +
        sum_list (map (days_in_month y) [1..m - 1]) + d)"

definition prev_day :: "date \<Rightarrow> date" where
  "prev_day t =
     (case t of (y, m, d) \<Rightarrow>
        if 1 < d then (y, m, d - 1)
        else if 1 < m then (y, m - 1, days_in_month y (m - 1))
        else (y - 1, 12, 31))"

definition date_minus_days :: "date \<Rightarrow> nat \<Rightarrow> error + date" where
  "date_minus_days t i =
     (if to_ordinal t \<le> int i then Inl OverflowError else Inr ((prev_day ^^ i) t))"

section \<open>Date filters\<close>

definition truthy :: "string option \<Rightarrow> bool" where
  "truthy x = (case x of None \<Rightarrow> False | Some s \<Rightarrow> s \<noteq> [])"

text \<open>The loop over the parts of the date string; \<open>int(part)\<close> can raise.\<close>

fun scan_parts :: "string list \<Rightarrow> int option \<Rightarrow> string option \<Rightarrow>
                   error + (int option \<times> string option)" where
  "scan_parts [] num_part month_part = Inr (num_part, month_part)"
| "scan_parts (part # parts) num_part month_part =
     (if isdigit part \<and> length part \<le> 2 then
        (case py_int part of
           None \<Rightarrow> Inl ValueError
         | Some n \<Rightarrow> scan_parts parts (Some n) month_part)
      else if month_shape (take 3 part) then scan_parts parts num_part (Some part)
      else scan_parts parts num_part month_part)"

text \<open>The time of day: the first three colon-separated pieces, each through \<open>int\<close>.\<close>

definition int_piece :: "string list \<Rightarrow> nat \<Rightarrow> error + int" where
  "int_piece time_parts k =
     (if k < length time_parts
      then (case py_int (time_parts ! k) of None \<Rightarrow> Inl ValueError | Some n \<Rightarrow> Inr n)
      else Inr 0)"

definition parse_time :: "string option \<Rightarrow> error + (int \<times> int \<times> int)" where
  "parse_time time_str =
     (if truthy time_str then
        (let time_parts = split_colon [] (case time_str of Some t \<Rightarrow> t | None \<Rightarrow> [])
         in case int_piece time_parts 0 of Inl e \<Rightarrow> Inl e
            | Inr hour \<Rightarrow>
           (case int_piece time_parts 1 of Inl e \<Rightarrow> Inl e
            | Inr minute \<Rightarrow>
           (case int_piece time_parts 2 of Inl e \<Rightarrow> Inl e
            | Inr second \<Rightarrow> Inr (hour, minute, second))))
      else Inr (0, 0, 0))"

text \<open>
  \<open>parse_date_time_for_comparison\<close>, with the current year as a parameter. Only the
  constructor call stands inside the \<open>try\<close>: the \<open>ValueError\<close> of \<open>int\<close> and of
  \<open>strptime\<close> leaves the function.
\<close>

definition parse_date_time_for_comparison ::
    "int \<Rightarrow> string \<Rightarrow> string option \<Rightarrow> error + datetime option" where
  "parse_date_time_for_comparison year date_str time_str =
     (if date_str = [] then Inr None
      else case scan_parts (split date_str) None None of
             Inl e \<Rightarrow> Inl e
           | Inr (num_part, month_part) \<Rightarrow>
               if \<not> (num_part \<noteq> None \<and> num_part \<noteq> Some 0 \<and> truthy month_part) then Inr None
               else (case strptime_b (case month_part of Some m \<Rightarrow> m | None \<Rightarrow> []) of
                       None \<Rightarrow> Inl ValueError
                     | Some month_num \<Rightarrow>
                         (case parse_time time_str of
                            Inl e \<Rightarrow> Inl e
                          | Inr (hour, minute, second) \<Rightarrow>
                              try_datetime (mk_datetime year month_num
                                     (case num_part of Some n \<Rightarrow> n | None \<Rightarrow> 0)
                                     hour minute second))))"

definition parse_timestamp_from_line :: "int \<Rightarrow> string \<Rightarrow> error + datetime option" where
  "parse_timestamp_from_line year line =
     (case search_timestamp line of
        None \<Rightarrow> Inr None
      | Some (month_str, day, clock) \<Rightarrow>
          (case strptime_b month_str of
             None \<Rightarrow> Inl ValueError
           | Some month_num \<Rightarrow>
               try_datetime (mk_datetime year month_num (int (nat_of_digits day))
                      (int (nat_of_digits (take 2 clock)))
                      (int (nat_of_digits (take 2 (drop 3 clock))))
                      (int (nat_of_digits (take 2 (drop 6 clock)))))))"

definition should_include_log_line :: "int \<Rightarrow> string \<Rightarrow> datetime option \<Rightarrow> error + bool" where
  "should_include_log_line year line start_datetime =
     (case start_datetime of
        None \<Rightarrow> Inr True
      | Some sd \<Rightarrow>
          (case parse_timestamp_from_line year line of
             Inl e \<Rightarrow> Inl e
           | Inr None \<Rightarrow> Inr False
           | Inr (Some line_datetime) \<Rightarrow> Inr (dt_ge line_datetime sd)))"

text \<open>One pattern of the lookback list: two blanks before a single-digit day.\<close>

definition date_pattern :: "date \<Rightarrow> string" where
  "date_pattern t =
     (case t of (y, month, day) \<Rightarrow>
        if day < 10 then strftime_b month @ ''  '' @ show_nat (nat day)
        else strftime_b month @ '' '' @ show_nat (nat day))"

fun lookback_patterns :: "date \<Rightarrow> nat list \<Rightarrow> error + string list" where
  "lookback_patterns today [] = Inr []"
| "lookback_patterns today (i # is) =
     (case date_minus_days today i of
        Inl e \<Rightarrow> Inl e
      | Inr date_obj \<Rightarrow>
          (case lookback_patterns today is of
             Inl e \<Rightarrow> Inl e
           | Inr patterns \<Rightarrow> Inr (date_pattern date_obj # patterns)))"

text \<open>
  \<open>parse_date_filter\<close>, with the current date as a parameter. \<open>range(days_back + 1)\<close> is
  empty for a negative \<open>days_back\<close>. The \<open>except\<close> clause catches the \<open>ValueError\<close> of
  \<open>int\<close> only.
\<close>

definition parse_date_filter :: "date \<Rightarrow> string \<Rightarrow> error + string list option" where
  "parse_date_filter today date_input =
     (if date_input = [] then Inr None
      else case py_int date_input of
             None \<Rightarrow> Inr None
           | Some days_back \<Rightarrow>
               (case lookback_patterns today [0..<nat (days_back + 1)] of
                  Inl e \<Rightarrow> Inl e
                | Inr patterns \<Rightarrow> Inr (Some patterns)))"

section \<open>Aggregator\<close>

text \<open>
  One entry of the \<open>messages\<close> dictionary: the six string-valued keys \<open>from\<close>, \<open>to\<close>,
  \<open>size\<close>, \<open>status\<close>, \<open>sg\<close> and \<open>time\<close>, with \<open>''-''\<close> as the unset sentinel. The dictionary
  itself is an association list in insertion order; \<open>AList.update\<close> replaces the value of
  a present key in place and appends an absent key, as assignment to a \<open>dict\<close> does.
\<close>

record message =
  m_from :: string
  m_to :: string
  m_size :: string
  m_status :: string
  m_sg :: string
  m_time :: string

type_synonym messages = "(string \<times> message) list"

definition default_message :: message where
  "default_message =
     \<lparr>m_from = ''-'', m_to = ''-'', m_size = ''-'', m_status = ''-'', m_sg = ''No'', m_time = ''-''\<rparr>"

text \<open>\<open>x or "-"\<close> for an optional string \<open>x\<close>.\<close>

definition or_dash :: "string option \<Rightarrow> string" where
  "or_dash x = (case x of None \<Rightarrow> ''-'' | Some s \<Rightarrow> if s = [] then ''-'' else s)"

text \<open>The entry that a blocked line puts in place of the old one.\<close>

definition blocked_message :: "string \<Rightarrow> string \<Rightarrow> message" where
  "blocked_message date_filter line =
     \<lparr>m_from = or_dash (extract_field line From_pat),
      m_to = or_dash (extract_field line To_pat),
      m_size = ''-'',
      m_status = ''blocked'',
      m_sg = (if is_sendgrid line then ''Yes'' else ''No''),
      m_time = (if date_filter \<noteq> [] then date_filter else ''-'')\<rparr>"

text \<open>The field updates of a standard line, in the order of the source.\<close>

definition merge_fields :: "message \<Rightarrow> string \<Rightarrow> message" where
  "merge_fields entry line =
     (let from_addr = extract_field line From_pat;
          e1 = (if truthy from_addr then entry\<lparr>m_from := or_dash from_addr\<rparr> else entry);
          to_addr = extract_field line To_pat;
          e2 = (if truthy to_addr then e1\<lparr>m_to := or_dash to_addr\<rparr> else e1);
          size = extract_field line Size_pat;
          e3 = (if truthy size then e2\<lparr>m_size := or_dash size\<rparr> else e2);
          e4 = (if py_in ''status=sent'' line then e3\<lparr>m_status := ''sent''\<rparr> else e3);
          e5 = (if is_sendgrid line then e4\<lparr>m_sg := ''Yes''\<rparr> else e4)
      in if m_time e5 = ''-'' then
           (let timestamp = extract_timestamp line
            in if truthy timestamp then e5\<lparr>m_time := or_dash timestamp\<rparr> else e5)
         else e5)"

text \<open>
  The entry of an id as the loop body sees it after the lazy creation: the stored entry,
  or the defaults for an id not seen before.
\<close>

definition entry_of :: "messages \<Rightarrow> string \<Rightarrow> message" where
  "entry_of messages qid =
     (case map_of messages qid of None \<Rightarrow> default_message | Some e \<Rightarrow> e)"

text \<open>
  The loop body of \<open>process_logs\<close> after the date filter: a line without queue id is
  skipped; a blocked line replaces the entry; any other line merges its fields into it.
\<close>

definition aggregate_line :: "string \<Rightarrow> messages \<Rightarrow> string \<Rightarrow> messages" where
  "aggregate_line date_filter messages line =
     (case extract_queue_id line of
        None \<Rightarrow> messages
      | Some qid \<Rightarrow>
          if is_blocked line
          then AList.update qid (blocked_message date_filter line) messages
          else AList.update qid (merge_fields (entry_of messages qid) line) messages)"

text \<open>The date filter at the head of the loop body.\<close>

definition line_passes ::
    "int \<Rightarrow> datetime option \<Rightarrow> string list option \<Rightarrow> string \<Rightarrow> error + bool" where
  "line_passes year start_datetime date_patterns line =
     (case start_datetime of
        Some sd \<Rightarrow> should_include_log_line year line (Some sd)
      | None \<Rightarrow>
          (case date_patterns of
             None \<Rightarrow> Inr True
           | Some patterns \<Rightarrow>
               if patterns = [] then Inr True
               else Inr (list_ex (\<lambda>pattern. py_in pattern line) patterns)))"

fun process_lines ::
    "int \<Rightarrow> datetime option \<Rightarrow> string list option \<Rightarrow> string \<Rightarrow> string list \<Rightarrow>
     messages \<Rightarrow> error + messages" where
  "process_lines year sd dp date_filter [] messages = Inr messages"
| "process_lines year sd dp date_filter (line # lines) messages =
     (case line_passes year sd dp line of
        Inl e \<Rightarrow> Inl e
      | Inr False \<Rightarrow> process_lines year sd dp date_filter lines messages
      | Inr True \<Rightarrow>
          process_lines year sd dp date_filter lines (aggregate_line date_filter messages line))"

text \<open>
  \<open>process_logs\<close>, with the current date \<open>today\<close> as a parameter in place of the calls of
  \<open>datetime.now()\<close>. An exception raised anywhere inside is the result \<open>Inl\<close>.
\<close>

definition process_logs ::
    "date \<Rightarrow> string list \<Rightarrow> string \<Rightarrow> string option \<Rightarrow> error + messages" where
  "process_logs today lines date_filter time_filter =
     (case (if date_filter \<noteq> []
            then parse_date_time_for_comparison (fst today) date_filter time_filter
            else Inr None) of
        Inl e \<Rightarrow> Inl e
      | Inr start_datetime \<Rightarrow>
          (case (if date_filter \<noteq> [] \<and> start_datetime = None
                 then parse_date_filter today date_filter
                 else Inr None) of
             Inl e \<Rightarrow> Inl e
           | Inr date_patterns \<Rightarrow>
               process_lines (fst today) start_datetime date_patterns date_filter lines []))"

section \<open>Report filter\<close>






section \<open>Properties of the aggregator step\<close>

lemma entry_of_update:
  "entry_of (AList.update k v al) k' = (if k' = k then v else entry_of al k')"
  by (simp add: entry_of_def update_conv')

lemma aggregate_line_entry:
  assumes "extract_queue_id line = Some qid"
  shows "entry_of (aggregate_line df messages line) q =
           (if q = qid
            then (if is_blocked line then blocked_message df line
                  else merge_fields (entry_of messages qid) line)
            else entry_of messages q)"
  using assms by (simp add: aggregate_line_def entry_of_update)

lemma aggregate_line_present:
  assumes "extract_queue_id line = Some qid"
  shows "map_of (aggregate_line df messages line) qid \<noteq> None"
  using assms by (simp add: aggregate_line_def update_conv')

lemma search_size_nonempty: "search_size s = Some a \<Longrightarrow> a \<noteq> []"
  by (induction s) (auto simp: Let_def split: if_splits)

lemma extract_timestamp_nonempty: "extract_timestamp l = Some t \<Longrightarrow> t \<noteq> []"
  by (auto simp: extract_timestamp_def split: option.splits)

lemma merge_fields_from:
  "m_from (merge_fields e line) =
     (case extract_field line From_pat of None \<Rightarrow> m_from e
      | Some a \<Rightarrow> if a = [] then m_from e else a)"
  by (simp add: merge_fields_def Let_def truthy_def or_dash_def split: option.splits)

lemma merge_fields_to:
  "m_to (merge_fields e line) =
     (case extract_field line To_pat of None \<Rightarrow> m_to e
      | Some a \<Rightarrow> if a = [] then m_to e else a)"
  by (simp add: merge_fields_def Let_def truthy_def or_dash_def split: option.splits)

lemma merge_fields_size:
  "m_size (merge_fields e line) =
     (case extract_field line Size_pat of None \<Rightarrow> m_size e | Some a \<Rightarrow> a)"
  by (auto simp add: merge_fields_def Let_def truthy_def or_dash_def dest: search_size_nonempty split: option.splits)

lemma merge_fields_status:
  "m_status (merge_fields e line) = (if py_in ''status=sent'' line then ''sent'' else m_status e)"
  by (simp add: merge_fields_def Let_def)

lemma merge_fields_sg:
  "m_sg (merge_fields e line) = (if is_sendgrid line then ''Yes'' else m_sg e)"
  by (simp add: merge_fields_def Let_def)

lemma merge_fields_time:
  "m_time (merge_fields e line) =
     (if m_time e \<noteq> ''-'' then m_time e
      else case extract_timestamp line of None \<Rightarrow> ''-'' | Some t \<Rightarrow> t)"
  by (auto simp add: merge_fields_def Let_def truthy_def or_dash_def dest: extract_timestamp_nonempty split: option.splits)

text \<open>
  Claim C1. A line that carries a queue id and is classified as blocked replaces the entry
  of that id as a whole: sender and recipient are what this one line carries (the sentinel
  \<open>''-''\<close> when the line has no such field or an empty one), the size is unset, the status is
  \<open>blocked\<close>, and the relay marker reflects this line alone. The new entry is the same
  whatever the dictionary held before (\<open>messages\<close> against any other \<open>messages'\<close>), and no
  other field of the line is extracted.
\<close>

theorem blocked_line_replaces_entry:
  assumes "extract_queue_id line = Some qid" and "is_blocked line"
  shows "map_of (aggregate_line date_filter messages line) qid \<noteq> None \<and>
         m_from (entry_of (aggregate_line date_filter messages line) qid) =
           (case extract_field line From_pat of None \<Rightarrow> ''-''
            | Some a \<Rightarrow> if a = [] then ''-'' else a) \<and>
         m_to (entry_of (aggregate_line date_filter messages line) qid) =
           (case extract_field line To_pat of None \<Rightarrow> ''-''
            | Some a \<Rightarrow> if a = [] then ''-'' else a) \<and>
         m_size (entry_of (aggregate_line date_filter messages line) qid) = ''-'' \<and>
         m_status (entry_of (aggregate_line date_filter messages line) qid) = ''blocked'' \<and>
         m_sg (entry_of (aggregate_line date_filter messages line) qid) =
           (if is_sendgrid line then ''Yes'' else ''No'') \<and>
         entry_of (aggregate_line date_filter messages line) qid =
           entry_of (aggregate_line date_filter messages' line) qid"
  using assms
  by (simp add: aggregate_line_entry aggregate_line_present blocked_message_def or_dash_def)

text \<open>
  The example of the specification: a \<open>NOQUEUE: reject\<close> line with sender \<open>c@z.com\<close> and id
  \<open>AA11BB22CC33\<close>, met after an entry with every field set; the line also carries
  \<open>size=\<close> and \<open>status=sent\<close>, which are not read.
\<close>

theorem blocked_line_replaces_entry_witness:
  "extract_queue_id ''Dec  5 10:00:05 mail postfix/smtpd[2]: NOQUEUE: reject: AA11BB22CC33: from=<c@z.com> size=3 status=sent'' = Some ''AA11BB22CC33'' \<and>
   is_blocked ''Dec  5 10:00:05 mail postfix/smtpd[2]: NOQUEUE: reject: AA11BB22CC33: from=<c@z.com> size=3 status=sent'' \<and>
   entry_of (aggregate_line []
      [(''AA11BB22CC33'', \<lparr>m_from = ''a@x.com'', m_to = ''b@y.com'', m_size = ''99'',
                            m_status = ''sent'', m_sg = ''Yes'', m_time = ''5 Dec 10:00:00''\<rparr>)]
      ''Dec  5 10:00:05 mail postfix/smtpd[2]: NOQUEUE: reject: AA11BB22CC33: from=<c@z.com> size=3 status=sent'')
      ''AA11BB22CC33'' =
     \<lparr>m_from = ''c@z.com'', m_to = ''-'', m_size = ''-'', m_status = ''blocked'', m_sg = ''No'',
      m_time = ''-''\<rparr>"
  (is "extract_queue_id ?L = Some ?Q \<and> is_blocked ?L \<and> entry_of (aggregate_line [] ?M ?L) ?Q = ?R")
proof -
  have h1: "extract_queue_id ?L = Some ?Q" by code_simp
  have h2: "is_blocked ?L" by code_simp
  have f: "extract_field ?L From_pat = Some ''c@z.com''" by code_simp
  have t: "extract_field ?L To_pat = None" by code_simp
  have s: "\<not> is_sendgrid ?L" by code_simp
  have tm: "m_time (entry_of (aggregate_line [] ?M ?L) ?Q) = ''-''"
    using h1 h2 by (simp add: aggregate_line_entry blocked_message_def)
  from blocked_line_replaces_entry [OF h1 h2, of "[]" ?M ?M] f t s tm
  have "entry_of (aggregate_line [] ?M ?L) ?Q = ?R"
    by (cases "entry_of (aggregate_line [] ?M ?L) ?Q") simp
  with h1 h2 show ?thesis by blast
qed

text \<open>
  Claim C7 says that the replaced entry's time is the date-filter string when a date filter
  is active, and the sentinel otherwise. The source tests the raw string only: a string
  that parses to neither a threshold nor a lookback (\<open>foo\<close>), or to an empty lookback list
  (\<open>-1\<close>), filters nothing, so the line of 1 January is processed on 6 December, and yet
  the entry's time is that string and not \<open>-\<close>.
\<close>

theorem blocked_time_inactive_filter_counterexample:
  "parse_date_time_for_comparison 2026 ''foo'' None = Inr None \<and>
   parse_date_filter (2026, 12, 6) ''foo'' = Inr None \<and>
   process_logs (2026, 12, 6)
     [''Jan  1 10:00:05 mail postfix/smtpd[2]: NOQUEUE: reject: AA11BB22CC33: from=<c@z.com>'']
     ''foo'' None =
   Inr [(''AA11BB22CC33'', \<lparr>m_from = ''c@z.com'', m_to = ''-'', m_size = ''-'',
                             m_status = ''blocked'', m_sg = ''No'', m_time = ''foo''\<rparr>)] \<and>
   parse_date_time_for_comparison 2026 ''-1'' None = Inr None \<and>
   parse_date_filter (2026, 12, 6) ''-1'' = Inr (Some []) \<and>
   process_logs (2026, 12, 6)
     [''Jan  1 10:00:05 mail postfix/smtpd[2]: NOQUEUE: reject: AA11BB22CC33: from=<c@z.com>'']
     ''-1'' None =
   Inr [(''AA11BB22CC33'', \<lparr>m_from = ''c@z.com'', m_to = ''-'', m_size = ''-'',
                             m_status = ''blocked'', m_sg = ''No'', m_time = ''-1''\<rparr>)]"
  by code_simp

text \<open>
  Claim C7, as amended. On the replacement by a blocked line the time of the entry becomes
  the raw date-filter string whenever that string is non-empty, whether or not it parses to
  a filter that is in effect, and the sentinel \<open>''-''\<close> only when the string is empty. It is
  not the timestamp of the blocking line.
\<close>

theorem blocked_time_is_date_filter:
  assumes "extract_queue_id line = Some qid" and "is_blocked line"
  shows "m_time (entry_of (aggregate_line date_filter messages line) qid) =
           (if date_filter \<noteq> [] then date_filter else ''-'')"
  using assms by (simp add: aggregate_line_entry blocked_message_def)

text \<open>
  A blocked line stamped \<open>Dec  5 10:00:05\<close>: with the date filter \<open>4 Dec\<close> the entry's time
  is \<open>4 Dec\<close>, with no date filter it is \<open>-\<close>; in neither case the line's own timestamp.
\<close>

theorem blocked_time_is_date_filter_witness:
  "extract_queue_id ''Dec  5 10:00:05 mail postfix/smtpd[2]: NOQUEUE: reject: AA11BB22CC33: from=<c@z.com>'' = Some ''AA11BB22CC33'' \<and>
   is_blocked ''Dec  5 10:00:05 mail postfix/smtpd[2]: NOQUEUE: reject: AA11BB22CC33: from=<c@z.com>'' \<and>
   extract_timestamp ''Dec  5 10:00:05 mail postfix/smtpd[2]: NOQUEUE: reject: AA11BB22CC33: from=<c@z.com>'' = Some ''5 Dec 10:00:05'' \<and>
   m_time (entry_of (aggregate_line ''4 Dec'' []
      ''Dec  5 10:00:05 mail postfix/smtpd[2]: NOQUEUE: reject: AA11BB22CC33: from=<c@z.com>'')
      ''AA11BB22CC33'') = ''4 Dec'' \<and>
   m_time (entry_of (aggregate_line [] []
      ''Dec  5 10:00:05 mail postfix/smtpd[2]: NOQUEUE: reject: AA11BB22CC33: from=<c@z.com>'')
      ''AA11BB22CC33'') = ''-''"
  (is "extract_queue_id ?L = Some ?Q \<and> is_blocked ?L \<and> ?T \<and> ?A \<and> ?B")
proof -
  have h1: "extract_queue_id ?L = Some ?Q" by code_simp
  have h2: "is_blocked ?L" by code_simp
  have t: "?T" by code_simp
  have a: "?A" using blocked_time_is_date_filter [OF h1 h2, of "''4 Dec''" "[]"] by simp
  have b: "?B" using blocked_time_is_date_filter [OF h1 h2, of "[]" "[]"] by simp
  from h1 h2 t a b show ?thesis by blast
qed

text \<open>
  Claim C2. A line that carries a queue id and is not blocked merges its fields into the
  entry: sender, recipient and size are overwritten whenever the line yields a non-empty
  value for them (last observed wins); the status becomes \<open>sent\<close> and the relay marker
  \<open>Yes\<close> when the line signals it and are otherwise kept; the time is assigned only while
  it is still unset (first observed wins). So once the time is set, a second such line of
  the same id, whichever of two lines comes second, leaves it as it is.
\<close>

theorem merge_policy:
  assumes "extract_queue_id line = Some qid" and "\<not> is_blocked line"
      and "extract_queue_id line2 = Some qid" and "\<not> is_blocked line2"
  shows "m_from (entry_of (aggregate_line df messages line) qid) =
           (case extract_field line From_pat of None \<Rightarrow> m_from (entry_of messages qid)
            | Some a \<Rightarrow> if a = [] then m_from (entry_of messages qid) else a) \<and>
         m_to (entry_of (aggregate_line df messages line) qid) =
           (case extract_field line To_pat of None \<Rightarrow> m_to (entry_of messages qid)
            | Some a \<Rightarrow> if a = [] then m_to (entry_of messages qid) else a) \<and>
         m_size (entry_of (aggregate_line df messages line) qid) =
           (case extract_field line Size_pat of None \<Rightarrow> m_size (entry_of messages qid)
            | Some a \<Rightarrow> a) \<and>
         m_status (entry_of (aggregate_line df messages line) qid) =
           (if py_in ''status=sent'' line then ''sent'' else m_status (entry_of messages qid)) \<and>
         m_sg (entry_of (aggregate_line df messages line) qid) =
           (if is_sendgrid line then ''Yes'' else m_sg (entry_of messages qid)) \<and>
         m_time (entry_of (aggregate_line df messages line) qid) =
           (if m_time (entry_of messages qid) \<noteq> ''-'' then m_time (entry_of messages qid)
            else case extract_timestamp line of None \<Rightarrow> ''-'' | Some t \<Rightarrow> t) \<and>
         (m_time (entry_of (aggregate_line df messages line) qid) \<noteq> ''-'' \<longrightarrow>
            m_time (entry_of (aggregate_line df (aggregate_line df messages line) line2) qid) =
            m_time (entry_of (aggregate_line df messages line) qid))"
  using assms
  by (simp add: aggregate_line_entry merge_fields_from merge_fields_to merge_fields_size
        merge_fields_status merge_fields_sg merge_fields_time)

text \<open>
  Two sender-bearing lines of one id, met in both orders after an entry whose time is set:
  the sender ends as that of the line processed last (\<open>b@y.com\<close> against \<open>a@x.com\<close>), the
  time stays \<open>4 Dec 09:00:00\<close> in both orders.
\<close>

theorem merge_policy_witness:
  "extract_queue_id ''Dec  5 10:00:00 mail postfix/qmgr[1]: ABCDEF1234: from=<a@x.com>, size=512'' = Some ''ABCDEF1234'' \<and>
   \<not> is_blocked ''Dec  5 10:00:00 mail postfix/qmgr[1]: ABCDEF1234: from=<a@x.com>, size=512'' \<and>
   extract_queue_id ''Dec  5 10:00:05 mail postfix/qmgr[1]: ABCDEF1234: from=<b@y.com>, size=77'' = Some ''ABCDEF1234'' \<and>
   \<not> is_blocked ''Dec  5 10:00:05 mail postfix/qmgr[1]: ABCDEF1234: from=<b@y.com>, size=77'' \<and>
   m_from (entry_of (aggregate_line [] (aggregate_line []
      [(''ABCDEF1234'', \<lparr>m_from = ''old@w.com'', m_to = ''t@w.com'', m_size = ''1'',
                          m_status = ''sent'', m_sg = ''Yes'', m_time = ''4 Dec 09:00:00''\<rparr>)]
      ''Dec  5 10:00:00 mail postfix/qmgr[1]: ABCDEF1234: from=<a@x.com>, size=512'')
      ''Dec  5 10:00:05 mail postfix/qmgr[1]: ABCDEF1234: from=<b@y.com>, size=77'') ''ABCDEF1234'') = ''b@y.com'' \<and>
   m_from (entry_of (aggregate_line [] (aggregate_line []
      [(''ABCDEF1234'', \<lparr>m_from = ''old@w.com'', m_to = ''t@w.com'', m_size = ''1'',
                          m_status = ''sent'', m_sg = ''Yes'', m_time = ''4 Dec 09:00:00''\<rparr>)]
      ''Dec  5 10:00:05 mail postfix/qmgr[1]: ABCDEF1234: from=<b@y.com>, size=77'')
      ''Dec  5 10:00:00 mail postfix/qmgr[1]: ABCDEF1234: from=<a@x.com>, size=512'') ''ABCDEF1234'') = ''a@x.com'' \<and>
   m_time (entry_of (aggregate_line [] (aggregate_line []
      [(''ABCDEF1234'', \<lparr>m_from = ''old@w.com'', m_to = ''t@w.com'', m_size = ''1'',
                          m_status = ''sent'', m_sg = ''Yes'', m_time = ''4 Dec 09:00:00''\<rparr>)]
      ''Dec  5 10:00:00 mail postfix/qmgr[1]: ABCDEF1234: from=<a@x.com>, size=512'')
      ''Dec  5 10:00:05 mail postfix/qmgr[1]: ABCDEF1234: from=<b@y.com>, size=77'') ''ABCDEF1234'') = ''4 Dec 09:00:00'' \<and>
   m_time (entry_of (aggregate_line [] (aggregate_line []
      [(''ABCDEF1234'', \<lparr>m_from = ''old@w.com'', m_to = ''t@w.com'', m_size = ''1'',
                          m_status = ''sent'', m_sg = ''Yes'', m_time = ''4 Dec 09:00:00''\<rparr>)]
      ''Dec  5 10:00:05 mail postfix/qmgr[1]: ABCDEF1234: from=<b@y.com>, size=77'')
      ''Dec  5 10:00:00 mail postfix/qmgr[1]: ABCDEF1234: from=<a@x.com>, size=512'') ''ABCDEF1234'') = ''4 Dec 09:00:00''"
  (is "extract_queue_id ?L1 = Some ?Q \<and> \<not> is_blocked ?L1 \<and> extract_queue_id ?L2 = Some ?Q \<and>
       \<not> is_blocked ?L2 \<and> ?F12 \<and> ?F21 \<and> ?T12 \<and> ?T21")
proof -
  let ?M = "[(''ABCDEF1234'', \<lparr>m_from = ''old@w.com'', m_to = ''t@w.com'', m_size = ''1'',
                          m_status = ''sent'', m_sg = ''Yes'', m_time = ''4 Dec 09:00:00''\<rparr>)]"
  have h1: "extract_queue_id ?L1 = Some ?Q" by code_simp
  have b1: "\<not> is_blocked ?L1" by code_simp
  have h2: "extract_queue_id ?L2 = Some ?Q" by code_simp
  have b2: "\<not> is_blocked ?L2" by code_simp
  have f1: "extract_field ?L1 From_pat = Some ''a@x.com''" by code_simp
  have f2: "extract_field ?L2 From_pat = Some ''b@y.com''" by code_simp
  have e: "m_time (entry_of ?M ?Q) = ''4 Dec 09:00:00''" by (simp add: entry_of_def)
  note A = merge_policy [OF h1 b1 h2 b2, of "[]" ?M]
  note B = merge_policy [OF h2 b2 h1 b1, of "[]" ?M]
  note A' = merge_policy [OF h2 b2 h1 b1, of "[]" "aggregate_line [] ?M ?L1"]
  note B' = merge_policy [OF h1 b1 h2 b2, of "[]" "aggregate_line [] ?M ?L2"]
  have F12: ?F12 using A' f2 by simp
  have F21: ?F21 using B' f1 by simp
  have T12: ?T12 using A e by simp
  have T21: ?T21 using B e by simp
  from h1 b1 h2 b2 F12 F21 T12 T21 show ?thesis by blast
qed

text \<open>
  Claim C6 says that a blocked outcome is terminal. It is not: a message deferred first
  and delivered on a later attempt ends with the status \<open>sent\<close>.
\<close>

theorem blocked_not_terminal_counterexample:
  "process_logs (2026, 12, 6)
     [''Dec  5 10:00:00 mail postfix/smtp[1]: ABCDEF1234: to=<b@y.com>, status=deferred (connection timed out)'']
     [] None =
   Inr [(''ABCDEF1234'', \<lparr>m_from = ''-'', m_to = ''b@y.com'', m_size = ''-'',
                           m_status = ''blocked'', m_sg = ''No'', m_time = ''-''\<rparr>)] \<and>
   process_logs (2026, 12, 6)
     [''Dec  5 10:00:00 mail postfix/smtp[1]: ABCDEF1234: to=<b@y.com>, status=deferred (connection timed out)'',
      ''Dec  5 10:20:05 mail postfix/smtp[2]: ABCDEF1234: to=<b@y.com>, status=sent (250 ok)'']
     [] None =
   Inr [(''ABCDEF1234'', \<lparr>m_from = ''-'', m_to = ''b@y.com'', m_size = ''-'',
                           m_status = ''sent'', m_sg = ''No'', m_time = ''5 Dec 10:20:05''\<rparr>)]"
  by code_simp

text \<open>
  Claim C6, as amended. Once the status of an id is \<open>blocked\<close>, one further line leaves
  it \<open>blocked\<close>, except a line of the same id that is not itself blocked and carries
  \<open>status=sent\<close>, which makes it \<open>sent\<close>. No line makes it anything else.
\<close>

theorem blocked_status_after_line:
  assumes "m_status (entry_of messages qid) = ''blocked''"
  shows "m_status (entry_of (aggregate_line date_filter messages line) qid) =
           (if extract_queue_id line = Some qid \<and> \<not> is_blocked line \<and> py_in ''status=sent'' line
            then ''sent'' else ''blocked'')"
proof (cases "extract_queue_id line")
  case None
  then show ?thesis using assms by (simp add: aggregate_line_def)
next
  case (Some q)
  then show ?thesis using assms
    by (auto simp add: aggregate_line_entry merge_fields_status blocked_message_def)
qed

text \<open>
  After a blocked entry, a queue-manager line of the same id keeps the status, and a
  delivery line with \<open>status=sent\<close> changes it to \<open>sent\<close>.
\<close>

theorem blocked_status_after_line_witness:
  "m_status (entry_of [(''ABCDEF1234'', \<lparr>m_from = ''-'', m_to = ''b@y.com'', m_size = ''-'',
        m_status = ''blocked'', m_sg = ''No'', m_time = ''-''\<rparr>)] ''ABCDEF1234'') = ''blocked'' \<and>
   m_status (entry_of (aggregate_line []
       [(''ABCDEF1234'', \<lparr>m_from = ''-'', m_to = ''b@y.com'', m_size = ''-'',
         m_status = ''blocked'', m_sg = ''No'', m_time = ''-''\<rparr>)]
       ''Dec  5 10:20:05 mail postfix/qmgr[2]: ABCDEF1234: from=<a@x.com>, size=512, nrcpt=1'')
     ''ABCDEF1234'') = ''blocked'' \<and>
   m_status (entry_of (aggregate_line []
       [(''ABCDEF1234'', \<lparr>m_from = ''-'', m_to = ''b@y.com'', m_size = ''-'',
         m_status = ''blocked'', m_sg = ''No'', m_time = ''-''\<rparr>)]
       ''Dec  5 10:20:05 mail postfix/smtp[2]: ABCDEF1234: to=<b@y.com>, status=sent (250 ok)'')
     ''ABCDEF1234'') = ''sent''"
  (is "?H \<and> m_status (entry_of (aggregate_line [] ?M ?L1) ?Q) = ''blocked'' \<and>
       m_status (entry_of (aggregate_line [] ?M ?L2) ?Q) = ''sent''")
proof -
  have h: ?H by (simp add: entry_of_def)
  have q1: "extract_queue_id ?L1 = Some ?Q" by code_simp
  have s1: "\<not> py_in ''status=sent'' ?L1" by code_simp
  have q2: "extract_queue_id ?L2 = Some ?Q" by code_simp
  have b2: "\<not> is_blocked ?L2" by code_simp
  have s2: "py_in ''status=sent'' ?L2" by code_simp
  have A: "m_status (entry_of (aggregate_line [] ?M ?L1) ?Q) = ''blocked''"
    using blocked_status_after_line [OF h, of "[]" ?L1] s1 by simp
  have B: "m_status (entry_of (aggregate_line [] ?M ?L2) ?Q) = ''sent''"
    using blocked_status_after_line [OF h, of "[]" ?L2] q2 b2 s2 by simp
  from h A B show ?thesis by blast
qed

section \<open>Empty addresses\<close>

lemma prefix_within:
  assumes "prefix xs (ys @ zs)" and "length xs \<le> length ys"
  shows "prefix xs ys"
  using assms by (metis prefix_length_prefix prefixI)

lemma search_angle_first_empty:
  assumes "key \<noteq> []" and "\<not> py_in key (pre @ butlast key)"
  shows "search_angle key (pre @ key @ CHR ''>'' # post) = Some []"
  using assms
proof (induction pre)
  case Nil
  then obtain k ks where k: "key = k # ks" by (cases key) auto
  have "search_angle key (key @ CHR ''>'' # post) = Some []"
    unfolding k by (simp add: Let_def)
  then show ?case by simp
next
  case (Cons c p)
  have np: "\<not> prefix key ((c # p) @ butlast key)" and ni: "\<not> py_in key (p @ butlast key)"
    using Cons.prems(2) by auto
  have "\<not> prefix key ((c # p) @ key @ CHR ''>'' # post)"
  proof
    assume a: "prefix key ((c # p) @ key @ CHR ''>'' # post)"
    have e: "butlast key @ [last key] = key" using Cons.prems(1) by simp
    have "((c # p) @ butlast key) @ (last key # CHR ''>'' # post) =
          (c # p) @ (butlast key @ [last key]) @ CHR ''>'' # post"
      by simp
    also have "\<dots> = (c # p) @ key @ CHR ''>'' # post" by (simp only: e)
    finally have eq: "((c # p) @ butlast key) @ (last key # CHR ''>'' # post) =
                      (c # p) @ key @ CHR ''>'' # post" .
    have "prefix key (((c # p) @ butlast key) @ (last key # CHR ''>'' # post))"
      by (subst eq) (rule a)
    moreover have "length key \<le> length ((c # p) @ butlast key)" by simp
    ultimately have "prefix key ((c # p) @ butlast key)" by (rule prefix_within)
    with np show False by contradiction
  qed
  then have "search_angle key ((c # p) @ key @ CHR ''>'' # post) =
             search_angle key (p @ key @ CHR ''>'' # post)"
    by (simp add: Let_def)
  with Cons.IH [OF Cons.prems(1) ni] show ?case by simp
qed

text \<open>
  Claim C10 speaks of every line that contains \<open>from=<>\<close> or \<open>to=<>\<close>. The search takes the
  first occurrence of \<open>from=<\<close> that is closed by a \<open>>\<close>, so a line with a filled address
  before the empty one does set the field: here the line contains \<open>from=<>\<close> (inside
  \<open>orig_from=<>\<close>) and sets the sender to \<open>a@x.com\<close>.
\<close>

theorem empty_address_counterexample:
  "py_in ''from=<>'' ''Dec  5 10:00:00 mail postfix/qmgr[1]: ABCDEF1234: from=<a@x.com>, orig_from=<>'' \<and>
   \<not> is_blocked ''Dec  5 10:00:00 mail postfix/qmgr[1]: ABCDEF1234: from=<a@x.com>, orig_from=<>'' \<and>
   m_from (entry_of [] ''ABCDEF1234'') = ''-'' \<and>
   m_from (entry_of (aggregate_line [] []
      ''Dec  5 10:00:00 mail postfix/qmgr[1]: ABCDEF1234: from=<a@x.com>, orig_from=<>'')
      ''ABCDEF1234'') = ''a@x.com''"
  by code_simp

text \<open>
  Claim C10, as amended. When the first occurrence of \<open>from=<\<close> on a line is closed at
  once (the line is \<open>pre @ ''from=<>'' @ post\<close> and no \<open>from=<\<close> starts inside \<open>pre\<close>), the
  line does not set the sender: a line that is not blocked keeps the stored value, a blocked
  line makes it the sentinel \<open>''-''\<close>. The same holds for \<open>to=<\<close> and the recipient.
\<close>

theorem empty_match_is_no_observation:
  assumes "extract_queue_id line = Some qid"
  shows "(line = pre @ ''from=<>'' @ post \<and> \<not> py_in ''from=<'' (pre @ ''from='') \<longrightarrow>
            m_from (entry_of (aggregate_line date_filter messages line) qid) =
              (if is_blocked line then ''-'' else m_from (entry_of messages qid))) \<and>
         (line = pre' @ ''to=<>'' @ post' \<and> \<not> py_in ''to=<'' (pre' @ ''to='') \<longrightarrow>
            m_to (entry_of (aggregate_line date_filter messages line) qid) =
              (if is_blocked line then ''-'' else m_to (entry_of messages qid)))"
proof (intro conjI impI)
  assume a: "line = pre @ ''from=<>'' @ post \<and> \<not> py_in ''from=<'' (pre @ ''from='')"
  have "search_angle ''from=<'' (pre @ ''from=<'' @ CHR ''>'' # post) = Some []"
    using a by (intro search_angle_first_empty) simp_all
  then have "extract_field line From_pat = Some []" using a by simp
  then show "m_from (entry_of (aggregate_line date_filter messages line) qid) =
              (if is_blocked line then ''-'' else m_from (entry_of messages qid))"
    using assms by (simp add: aggregate_line_entry merge_fields_from blocked_message_def or_dash_def)
next
  assume a: "line = pre' @ ''to=<>'' @ post' \<and> \<not> py_in ''to=<'' (pre' @ ''to='')"
  have "search_angle ''to=<'' (pre' @ ''to=<'' @ CHR ''>'' # post') = Some []"
    using a by (intro search_angle_first_empty) simp_all
  then have "extract_field line To_pat = Some []" using a by simp
  then show "m_to (entry_of (aggregate_line date_filter messages line) qid) =
              (if is_blocked line then ''-'' else m_to (entry_of messages qid))"
    using assms by (simp add: aggregate_line_entry merge_fields_to blocked_message_def or_dash_def)
qed

text \<open>
  A line with a null sender and an empty recipient, met after an entry with both set: as
  a standard line it keeps \<open>a@x.com\<close> and \<open>b@y.com\<close>, as a \<open>NOQUEUE: reject\<close> line it
  resets both to \<open>-\<close>.
\<close>

theorem empty_match_is_no_observation_witness:
  "extract_queue_id ''Dec  5 10:00:00 mail postfix/qmgr[1]: ABCDEF1234: from=<> to=<> proto=ESMTP'' = Some ''ABCDEF1234'' \<and>
   \<not> is_blocked ''Dec  5 10:00:00 mail postfix/qmgr[1]: ABCDEF1234: from=<> to=<> proto=ESMTP'' \<and>
   ''Dec  5 10:00:00 mail postfix/qmgr[1]: ABCDEF1234: from=<> to=<> proto=ESMTP'' =
     ''Dec  5 10:00:00 mail postfix/qmgr[1]: ABCDEF1234: '' @ ''from=<>'' @ '' to=<> proto=ESMTP'' \<and>
   \<not> py_in ''from=<'' (''Dec  5 10:00:00 mail postfix/qmgr[1]: ABCDEF1234: '' @ ''from='') \<and>
   ''Dec  5 10:00:00 mail postfix/qmgr[1]: ABCDEF1234: from=<> to=<> proto=ESMTP'' =
     ''Dec  5 10:00:00 mail postfix/qmgr[1]: ABCDEF1234: from=<> '' @ ''to=<>'' @ '' proto=ESMTP'' \<and>
   \<not> py_in ''to=<'' (''Dec  5 10:00:00 mail postfix/qmgr[1]: ABCDEF1234: from=<> '' @ ''to='') \<and>
   m_from (entry_of (aggregate_line []
       [(''ABCDEF1234'', \<lparr>m_from = ''a@x.com'', m_to = ''b@y.com'', m_size = ''512'',
        m_status = ''-'', m_sg = ''No'', m_time = ''5 Dec 09:00:00''\<rparr>)]
       ''Dec  5 10:00:00 mail postfix/qmgr[1]: ABCDEF1234: from=<> to=<> proto=ESMTP'') ''ABCDEF1234'') = ''a@x.com'' \<and>
   m_to (entry_of (aggregate_line []
       [(''ABCDEF1234'', \<lparr>m_from = ''a@x.com'', m_to = ''b@y.com'', m_size = ''512'',
        m_status = ''-'', m_sg = ''No'', m_time = ''5 Dec 09:00:00''\<rparr>)]
       ''Dec  5 10:00:00 mail postfix/qmgr[1]: ABCDEF1234: from=<> to=<> proto=ESMTP'') ''ABCDEF1234'') = ''b@y.com'' \<and>
   extract_queue_id ''Dec  5 10:00:01 mail postfix/smtpd[3]: NOQUEUE: reject: ABCDEF1234: from=<> to=<> proto=ESMTP'' = Some ''ABCDEF1234'' \<and>
   is_blocked ''Dec  5 10:00:01 mail postfix/smtpd[3]: NOQUEUE: reject: ABCDEF1234: from=<> to=<> proto=ESMTP'' \<and>
   m_from (entry_of (aggregate_line []
       [(''ABCDEF1234'', \<lparr>m_from = ''a@x.com'', m_to = ''b@y.com'', m_size = ''512'',
        m_status = ''-'', m_sg = ''No'', m_time = ''5 Dec 09:00:00''\<rparr>)]
       ''Dec  5 10:00:01 mail postfix/smtpd[3]: NOQUEUE: reject: ABCDEF1234: from=<> to=<> proto=ESMTP'') ''ABCDEF1234'') = ''-'' \<and>
   m_to (entry_of (aggregate_line []
       [(''ABCDEF1234'', \<lparr>m_from = ''a@x.com'', m_to = ''b@y.com'', m_size = ''512'',
        m_status = ''-'', m_sg = ''No'', m_time = ''5 Dec 09:00:00''\<rparr>)]
       ''Dec  5 10:00:01 mail postfix/smtpd[3]: NOQUEUE: reject: ABCDEF1234: from=<> to=<> proto=ESMTP'') ''ABCDEF1234'') = ''-''"
  (is "extract_queue_id ?L = Some ?Q \<and> \<not> is_blocked ?L \<and> ?L = ?p1 @ ''from=<>'' @ ?s1 \<and> ?n1 \<and>
       ?L = ?p2 @ ''to=<>'' @ ?s2 \<and> ?n2 \<and> ?F \<and> ?T \<and>
       extract_queue_id ?LB = Some ?Q \<and> is_blocked ?LB \<and> ?FB \<and> ?TB")
proof -
  let ?M = "[(''ABCDEF1234'', \<lparr>m_from = ''a@x.com'', m_to = ''b@y.com'', m_size = ''512'',
        m_status = ''-'', m_sg = ''No'', m_time = ''5 Dec 09:00:00''\<rparr>)]"
  have q: "extract_queue_id ?L = Some ?Q" by code_simp
  have nb: "\<not> is_blocked ?L" by code_simp
  have e1: "?L = ?p1 @ ''from=<>'' @ ?s1" by simp
  have n1: ?n1 by code_simp
  have e2: "?L = ?p2 @ ''to=<>'' @ ?s2" by simp
  have n2: ?n2 by code_simp
  have qb: "extract_queue_id ?LB = Some ?Q" by code_simp
  have b: "is_blocked ?LB" by code_simp
  have eb1: "?LB = ''Dec  5 10:00:01 mail postfix/smtpd[3]: NOQUEUE: reject: ABCDEF1234: '' @ ''from=<>'' @ ?s1"
    by simp
  have nb1: "\<not> py_in ''from=<'' (''Dec  5 10:00:01 mail postfix/smtpd[3]: NOQUEUE: reject: ABCDEF1234: '' @ ''from='')"
    by code_simp
  have eb2: "?LB = ''Dec  5 10:00:01 mail postfix/smtpd[3]: NOQUEUE: reject: ABCDEF1234: from=<> '' @ ''to=<>'' @ ?s2"
    by simp
  have nb2: "\<not> py_in ''to=<'' (''Dec  5 10:00:01 mail postfix/smtpd[3]: NOQUEUE: reject: ABCDEF1234: from=<> '' @ ''to='')"
    by code_simp
  have old: "m_from (entry_of ?M ?Q) = ''a@x.com''" "m_to (entry_of ?M ?Q) = ''b@y.com''"
    by (simp_all add: entry_of_def)
  note A = empty_match_is_no_observation [OF q, of ?p1 ?s1 "[]" ?M ?p2 ?s2]
  note B = empty_match_is_no_observation [OF qb,
      of "''Dec  5 10:00:01 mail postfix/smtpd[3]: NOQUEUE: reject: ABCDEF1234: ''" ?s1 "[]" ?M
         "''Dec  5 10:00:01 mail postfix/smtpd[3]: NOQUEUE: reject: ABCDEF1234: from=<> ''" ?s2]
  note A1 = A [THEN conjunct1, THEN mp, OF conjI [OF e1 n1]]
  note A2 = A [THEN conjunct2, THEN mp, OF conjI [OF e2 n2]]
  note B1 = B [THEN conjunct1, THEN mp, OF conjI [OF eb1 nb1]]
  note B2 = B [THEN conjunct2, THEN mp, OF conjI [OF eb2 nb2]]
  have F: ?F using A1 by (simp only: nb if_False old)
  have T: ?T using A2 by (simp only: nb if_False old)
  have FB: ?FB using B1 by (simp only: b if_True)
  have TB: ?TB using B2 by (simp only: b if_True)
  from q nb e1 n1 e2 n2 F T qb b FB TB show ?thesis by (intro conjI)
qed

section \<open>Properties of the report filter\<close>

lemma py_in_sublist: "py_in sub s = sublist sub s"
  by (induction s) (auto simp: sublist_Cons_right)





section \<open>Properties of the date filters\<close>

text \<open>
  Where the timestamp of a line parses without an exception, the threshold test is the
  comparison of the two datetimes, and a line without a parsable timestamp is excluded.
\<close>

lemma threshold_filter_when_parsed:
  assumes "parse_timestamp_from_line year line = Inr r"
  shows "line_passes year (Some sd) dp line =
           Inr (case r of None \<Rightarrow> False | Some line_datetime \<Rightarrow> dt_ge line_datetime sd)"
  using assms by (simp add: line_passes_def should_include_log_line_def split: option.splits)

lemma parse_5_Abc: "parse_date_time_for_comparison year ''5 Abc'' time_filter = Inl ValueError"
proof -
  have s: "split ''5 Abc'' = [''5'', ''Abc'']" by code_simp
  have p: "scan_parts [''5'', ''Abc''] None None = Inr (Some 5, Some ''Abc'')" by code_simp
  have m: "strptime_b ''Abc'' = None" by code_simp
  show ?thesis
    by (simp add: parse_date_time_for_comparison_def s p m truthy_def del: scan_parts.simps)
qed

lemma parse_31_Feb_noon:
  "parse_date_time_for_comparison year ''31 Feb'' (Some ''noon'') = Inl ValueError"
proof -
  have s: "split ''31 Feb'' = [''31'', ''Feb'']" by code_simp
  have p: "scan_parts [''31'', ''Feb''] None None = Inr (Some 31, Some ''Feb'')" by code_simp
  have m: "strptime_b ''Feb'' = Some 2" by code_simp
  have t: "parse_time (Some ''noon'') = Inl ValueError" by code_simp
  show ?thesis
    by (simp add: parse_date_time_for_comparison_def s p m t truthy_def del: scan_parts.simps)
qed

text \<open>
  Claim C3. Under an absolute threshold a line is processed exactly when its parsed
  timestamp is at or after the threshold, and a line whose timestamp cannot be parsed is
  excluded. The docstring of \<open>parse_timestamp_from_line\<close> promises \<open>None\<close> when parsing
  fails, but \<open>strptime\<close> is called outside the \<open>try\<close>: a line whose first timestamp-shaped
  token has a month that is no English abbreviation (\<open>Okt\<close>) is not excluded, it raises
  \<open>ValueError\<close> and ends the whole scan, also for the lines accepted before it.
\<close>

theorem threshold_scan_raises_on_unknown_month:
  "process_logs (2026, 12, 6)
     [''Dec  6 10:00:00 mail postfix/qmgr[1]: ABCDEF1234: from=<a@x.com>, size=512'',
      ''Okt  6 10:00:01 mail postfix/smtp[2]: ABCDEF1234: to=<b@y.com>, status=sent'']
     ''5 Dec'' None = Inl ValueError \<and>
   parse_date_time_for_comparison 2026 ''5 Dec'' None =
     Inr (Some \<lparr>dt_year = 2026, dt_month = 12, dt_day = 5,
                  dt_hour = 0, dt_minute = 0, dt_second = 0\<rparr>) \<and>
   search_timestamp ''Okt  6 10:00:01 mail postfix/smtp[2]: ABCDEF1234: to=<b@y.com>, status=sent'' =
     Some (''Okt'', ''6'', ''10:00:01'') \<and>
   parse_timestamp_from_line 2026
     ''Okt  6 10:00:01 mail postfix/smtp[2]: ABCDEF1234: to=<b@y.com>, status=sent'' = Inl ValueError"
  by code_simp

text \<open>
  Claim C5. An unparseable date filter degrades to no filter and never raises. The
  docstring of \<open>parse_date_time_for_comparison\<close> promises \<open>None\<close> when parsing fails, but
  only the constructor call is guarded: a date with an unknown month name raises from
  \<open>strptime\<close>, and an impossible date with a malformed time raises from \<open>int\<close>, for every
  current date and every log.
\<close>

theorem unparseable_filter_raises:
  "process_logs today lines ''5 Abc'' time_filter = Inl ValueError \<and>
   process_logs today lines ''31 Feb'' (Some ''noon'') = Inl ValueError"
  by (simp add: process_logs_def parse_5_Abc parse_31_Feb_noon)

section \<open>The stored timestamp\<close>

lemma aggregate_line_other:
  assumes "extract_queue_id line \<noteq> Some qid"
  shows "entry_of (aggregate_line df messages line) qid = entry_of messages qid"
proof (cases "extract_queue_id line")
  case None
  then show ?thesis by (simp add: aggregate_line_def)
next
  case (Some q)
  with assms have "qid \<noteq> q" by auto
  with Some show ?thesis by (simp add: aggregate_line_entry)
qed

lemma process_lines_fold:
  "process_lines year sd dp df lines messages = Inr ms \<Longrightarrow>
   ms = foldl (aggregate_line df) messages
          (filter (\<lambda>l. line_passes year sd dp l = Inr True) lines)"
proof (induction lines arbitrary: messages)
  case Nil
  then show ?case by simp
next
  case (Cons l ls)
  show ?case
  proof (cases "line_passes year sd dp l")
    case (Inl e)
    with Cons.prems show ?thesis by simp
  next
    case (Inr b)
    with Cons.prems Cons.IH show ?thesis by (cases b) auto
  qed
qed

lemma find_filter_conj:
  "List.find P (filter Q xs) = List.find (\<lambda>x. Q x \<and> P x) xs"
  by (induction xs) auto

lemma fold_first_time:
  assumes "\<forall>l\<in>set lines. extract_queue_id l = Some qid \<longrightarrow> \<not> is_blocked l"
  shows "m_time (entry_of (foldl (aggregate_line df) messages lines) qid) =
           (if m_time (entry_of messages qid) \<noteq> ''-'' then m_time (entry_of messages qid)
            else case List.find (\<lambda>l. extract_queue_id l = Some qid \<and> extract_timestamp l \<noteq> None)
                        lines of
                   None \<Rightarrow> ''-''
                 | Some l \<Rightarrow> (case extract_timestamp l of None \<Rightarrow> ''-'' | Some t \<Rightarrow> t))"
  using assms
proof (induction lines arbitrary: messages)
  case Nil
  then show ?case by simp
next
  case (Cons l ls)
  have IH: "m_time (entry_of (foldl (aggregate_line df) (aggregate_line df messages l) ls) qid) =
           (if m_time (entry_of (aggregate_line df messages l) qid) \<noteq> ''-''
            then m_time (entry_of (aggregate_line df messages l) qid)
            else case List.find (\<lambda>l. extract_queue_id l = Some qid \<and> extract_timestamp l \<noteq> None)
                        ls of
                   None \<Rightarrow> ''-''
                 | Some l \<Rightarrow> (case extract_timestamp l of None \<Rightarrow> ''-'' | Some t \<Rightarrow> t))"
    using Cons.IH Cons.prems by simp
  show ?case
  proof (cases "extract_queue_id l = Some qid")
    case False
    then show ?thesis using IH by (simp add: aggregate_line_other)
  next
    case True
    then have nb: "\<not> is_blocked l" using Cons.prems by simp
    have step: "m_time (entry_of (aggregate_line df messages l) qid) =
           (if m_time (entry_of messages qid) \<noteq> ''-'' then m_time (entry_of messages qid)
            else case extract_timestamp l of None \<Rightarrow> ''-'' | Some t \<Rightarrow> t)"
      using True nb by (simp add: aggregate_line_entry merge_fields_time)
    show ?thesis
    proof (cases "extract_timestamp l")
      case None
      then show ?thesis using IH step True by simp
    next
      case (Some t)
      then have "t \<noteq> ''-''"
        by (auto simp: extract_timestamp_def split: option.splits)
      then show ?thesis using IH step True Some by simp
    qed
  qed
qed

text \<open>
  Claim C9 says that the stored timestamp keeps the textual form of the log, as
  \<open>Dec  5 10:00:00\<close> in the two-line example of the specification. \<open>extract_timestamp\<close>
  reformats on extraction, as its docstring announces: the example stores
  \<open>5 Dec 10:00:00\<close>.
\<close>

theorem timestamp_textual_form_counterexample:
  "process_logs (2026, 12, 6)
     [''Dec  5 10:00:00 ... ABCDEF1234: from=<a@x.com>'',
      ''Dec  5 10:00:05 ... ABCDEF1234: to=<b@y.com>, size=512, status=sent'']
     [] None =
   Inr [(''ABCDEF1234'', \<lparr>m_from = ''a@x.com'', m_to = ''b@y.com'', m_size = ''512'',
                           m_status = ''sent'', m_sg = ''No'', m_time = ''5 Dec 10:00:00''\<rparr>)] \<and>
   ''5 Dec 10:00:00'' \<noteq> ''Dec  5 10:00:00''"
  by code_simp

text \<open>
  Claim C9, as amended. For an id none of whose lines is blocked, the stored time is that
  of the first processed line of the id in which the timestamp pattern matches (a line is
  processed when it passes the date filter), written at extraction as day, month and
  clock time, the day as a number without padding; it is \<open>''-''\<close> when there is no such line.
\<close>

theorem first_timestamp_reformatted:
  assumes "process_lines year sd dp date_filter lines [] = Inr ms"
      and "\<forall>l\<in>set lines. extract_queue_id l = Some qid \<longrightarrow> \<not> is_blocked l"
  shows "m_time (entry_of ms qid) =
           (case List.find (\<lambda>l. line_passes year sd dp l = Inr True \<and>
                                 extract_queue_id l = Some qid \<and> search_timestamp l \<noteq> None) lines of
              None \<Rightarrow> ''-''
            | Some l \<Rightarrow>
                (case search_timestamp l of
                   None \<Rightarrow> ''-''
                 | Some (month, day, clock) \<Rightarrow>
                     show_nat (nat_of_digits day) @ '' '' @ month @ '' '' @ clock))"
proof -
  let ?P = "\<lambda>l. line_passes year sd dp l = Inr True"
  have ms: "ms = foldl (aggregate_line date_filter) [] (filter ?P lines)"
    using assms(1) by (rule process_lines_fold)
  have nb: "\<forall>l\<in>set (filter ?P lines). extract_queue_id l = Some qid \<longrightarrow> \<not> is_blocked l"
    using assms(2) by simp
  have none: "\<And>l. (extract_timestamp l \<noteq> None) = (search_timestamp l \<noteq> None)"
    by (auto simp: extract_timestamp_def split: option.splits)
  have val: "\<And>l. (case extract_timestamp l of None \<Rightarrow> ''-'' | Some t \<Rightarrow> t) =
                 (case search_timestamp l of None \<Rightarrow> ''-''
                  | Some (month, day, clock) \<Rightarrow>
                      show_nat (nat_of_digits day) @ '' '' @ month @ '' '' @ clock)"
    by (auto simp: extract_timestamp_def split: option.splits)
  have "m_time (entry_of [] qid) = ''-''" by (simp add: entry_of_def default_message_def)
  then show ?thesis
    unfolding ms fold_first_time [OF nb] find_filter_conj none val by simp
qed

text \<open>
  The two-line example again, without date filter: the first line of the id carries
  \<open>Dec  5 10:00:00\<close>, the stored time is \<open>5 Dec 10:00:00\<close>.
\<close>

theorem first_timestamp_reformatted_witness:
  "process_lines 2026 None None []
     [''Dec  5 10:00:00 ... ABCDEF1234: from=<a@x.com>'',
      ''Dec  5 10:00:05 ... ABCDEF1234: to=<b@y.com>, size=512, status=sent''] [] =
   Inr [(''ABCDEF1234'', \<lparr>m_from = ''a@x.com'', m_to = ''b@y.com'', m_size = ''512'',
                           m_status = ''sent'', m_sg = ''No'', m_time = ''5 Dec 10:00:00''\<rparr>)] \<and>
   \<not> is_blocked ''Dec  5 10:00:00 ... ABCDEF1234: from=<a@x.com>'' \<and>
   \<not> is_blocked ''Dec  5 10:00:05 ... ABCDEF1234: to=<b@y.com>, size=512, status=sent'' \<and>
   search_timestamp ''Dec  5 10:00:00 ... ABCDEF1234: from=<a@x.com>'' =
     Some (''Dec'', ''5'', ''10:00:00'') \<and>
   m_time (entry_of [(''ABCDEF1234'', \<lparr>m_from = ''a@x.com'', m_to = ''b@y.com'', m_size = ''512'',
                           m_status = ''sent'', m_sg = ''No'', m_time = ''5 Dec 10:00:00''\<rparr>)] ''ABCDEF1234'') =
     show_nat (nat_of_digits ''5'') @ '' '' @ ''Dec'' @ '' '' @ ''10:00:00''"
  (is "process_lines 2026 None None [] [?l1, ?l2] [] = Inr ?MS \<and> ?B1 \<and> ?B2 \<and> ?ST \<and> ?T")
proof -
  have h1: "process_lines 2026 None None [] [?l1, ?l2] [] = Inr ?MS" by code_simp
  have b1: ?B1 by code_simp
  have b2: ?B2 by code_simp
  have h2: "\<forall>l\<in>set [?l1, ?l2]. extract_queue_id l = Some ''ABCDEF1234'' \<longrightarrow> \<not> is_blocked l"
    using b1 b2 by simp
  have st: ?ST by code_simp
  have p1: "line_passes 2026 None None ?l1 = Inr True" by (simp add: line_passes_def)
  have q1: "extract_queue_id ?l1 = Some ''ABCDEF1234''" by code_simp
  have T: ?T
    using first_timestamp_reformatted [OF h1 h2] p1 q1 st by simp
  from h1 b1 b2 st T show ?thesis by (intro conjI)
qed

section \<open>Lookback mode\<close>

lemma digit_not_space: "re_digit c \<Longrightarrow> \<not> re_space c"
  by (auto simp: re_digit_def re_space_def)

lemma digit_not_int_space: "re_digit c \<Longrightarrow> \<not> int_space c"
  by (auto simp: re_digit_def int_space_def)

lemma digit_not_upper: "re_digit c \<Longrightarrow> \<not> is_upper c"
  by (auto simp: re_digit_def is_upper_def)

lemma digit_not_sign: "re_digit c \<Longrightarrow> c \<noteq> CHR ''-'' \<and> c \<noteq> CHR ''+'' \<and> c \<noteq> CHR ''_''"
  by (auto simp: re_digit_def)

lemma py_in_set: "py_in sub s \<Longrightarrow> set sub \<subseteq> set s"
  by (simp add: py_in_sublist set_mono_sublist)

lemma digits_py_int:
  assumes "s \<noteq> []" and "list_all re_digit s"
  shows "py_int s = Some (int (nat_of_digits s))"
proof -
  have all: "\<And>c. c \<in> set s \<Longrightarrow> re_digit c" using assms(2) by (simp add: list_all_iff)
  have hd: "re_digit (hd s)" and last: "re_digit (last s)" using assms(1) all by simp_all
  have d1: "dropWhile int_space s = s"
    using assms(1) hd by (cases s) (auto dest: digit_not_int_space)
  have "dropWhile int_space (rev s) = rev s"
    using assms(1) last by (cases "rev s") (auto simp: last_rev dest: digit_not_int_space)
  with d1 have strip: "strip_int s = s" by (simp add: strip_int_def)
  have nosign: "hd s \<noteq> CHR ''-''" "hd s \<noteq> CHR ''+''" using hd digit_not_sign by auto
  have "CHR ''_'' \<notin> set s" using all digit_not_sign by auto
  then have nous: "\<not> py_in ''__'' s" and filt: "filter (\<lambda>c. c \<noteq> CHR ''_'') s = s"
    by (auto dest: py_in_set simp: filter_id_conv)
  have valid: "valid_digits s"
    using assms hd last nous by (auto simp: valid_digits_def list_all_iff)
  show ?thesis
    by (simp add: py_int_def strip Let_def nosign valid filt)
qed

lemma split_ws_no_space:
  assumes "\<forall>c\<in>set s. \<not> re_space c"
  shows "split_ws acc s = (if acc @ s = [] then [] else [acc @ s])"
  using assms by (induction s arbitrary: acc) auto

lemma digits_no_threshold:
  assumes "s \<noteq> []" and "list_all re_digit s"
  shows "parse_date_time_for_comparison year s time_filter = Inr None"
proof -
  have all: "\<And>c. c \<in> set s \<Longrightarrow> re_digit c" using assms(2) by (simp add: list_all_iff)
  have sp: "split s = [s]"
    using assms(1) all by (simp add: split_def split_ws_no_space digit_not_space)
  have "\<not> month_shape (take 3 s)"
  proof (cases s)
    case Nil
    then show ?thesis using assms(1) by simp
  next
    case (Cons a r)
    then have "re_digit a" using all by simp
    then have "\<not> is_upper a" by (rule digit_not_upper)
    then show ?thesis using Cons
      by (auto simp: month_shape_def split: list.splits)
  qed
  then have "scan_parts [s] None None = Inr (None, None) \<or>
             (\<exists>n. scan_parts [s] None None = Inr (Some n, None))"
    using digits_py_int [OF assms] by simp
  then show ?thesis
    using assms(1) by (auto simp: parse_date_time_for_comparison_def sp truthy_def)
qed

lemma date_minus_days_error: "date_minus_days t i = Inl e \<Longrightarrow> e = OverflowError"
  by (auto simp: date_minus_days_def split: if_splits)

lemma lookback_patterns_ok:
  assumes "\<forall>i\<in>set is. int i < to_ordinal today"
  shows "lookback_patterns today is = Inr (map (\<lambda>i. date_pattern ((prev_day ^^ i) today)) is)"
  using assms by (induction "is") (auto simp: date_minus_days_def)

lemma lookback_patterns_overflow:
  assumes "i \<in> set is" and "to_ordinal today \<le> int i"
  shows "lookback_patterns today is = Inl OverflowError"
  using assms
proof (induction "is")
  case Nil
  then show ?case by simp
next
  case (Cons a as)
  show ?case
  proof (cases "date_minus_days today a")
    case (Inl e)
    then show ?thesis by (simp add: date_minus_days_error)
  next
    case (Inr d)
    then have "a \<noteq> i" using Cons.prems(2) by (auto simp: date_minus_days_def)
    then have "lookback_patterns today as = Inl OverflowError"
      using Cons by simp
    with Inr show ?thesis by simp
  qed
qed

lemma process_lines_patterns:
  assumes "patterns \<noteq> []"
  shows "process_lines year None (Some patterns) df lines messages =
           Inr (foldl (aggregate_line df) messages
                  (filter (\<lambda>line. list_ex (\<lambda>pattern. py_in pattern line) patterns) lines))"
  using assms by (induction lines arbitrary: messages) (auto simp: line_passes_def)

text \<open>
  Claim C4, as amended. When the date filter is the decimal form of a number \<open>N\<close> and
  \<open>N\<close> is smaller than the ordinal of the current date (so that the dates from today back
  to \<open>N\<close> days ago exist), the records are built from exactly the lines whose text
  contains one of the \<open>N + 1\<close> patterns of those dates; a pattern is the month
  abbreviation, two blanks before a single-digit day and one before a two-digit day, and
  the day. The time filter plays no part.
\<close>

theorem lookback_filter:
  assumes "date_filter \<noteq> []" and "list_all re_digit date_filter"
      and "int (nat_of_digits date_filter) < to_ordinal today"
  shows "process_logs today lines date_filter time_filter =
           Inr (foldl (aggregate_line date_filter) []
                  (filter (\<lambda>line. \<exists>i\<le>nat_of_digits date_filter.
                              py_in (date_pattern ((prev_day ^^ i) today)) line) lines)) \<and>
         (\<forall>y m d. date_pattern (y, m, d) =
              strftime_b m @ (if d < 10 then ''  '' else '' '') @ show_nat (nat d))"
proof
  let ?N = "nat_of_digits date_filter"
  let ?ps = "map (\<lambda>i. date_pattern ((prev_day ^^ i) today)) [0..<Suc ?N]"
  have sd: "parse_date_time_for_comparison (fst today) date_filter time_filter = Inr None"
    using assms(1,2) by (rule digits_no_threshold)
  have "lookback_patterns today [0..<Suc ?N] = Inr ?ps"
    using assms(3) by (intro lookback_patterns_ok) auto
  then have dp: "parse_date_filter today date_filter = Inr (Some ?ps)"
    using assms(1) digits_py_int [OF assms(1,2)]
    by (simp add: parse_date_filter_def nat_add_distrib)
  have ne: "?ps \<noteq> []" by simp
  have ex: "\<And>line. list_ex (\<lambda>pattern. py_in pattern line) ?ps =
              (\<exists>i\<le>?N. py_in (date_pattern ((prev_day ^^ i) today)) line)"
    by (auto simp: list_ex_iff less_Suc_eq_le simp del: upt_Suc)
  show "process_logs today lines date_filter time_filter =
           Inr (foldl (aggregate_line date_filter) []
                  (filter (\<lambda>line. \<exists>i\<le>?N.
                              py_in (date_pattern ((prev_day ^^ i) today)) line) lines))"
    using assms(1)
    by (simp only: process_logs_def sd dp if_True simp_thms sum.case
          process_lines_patterns [OF ne] ex)
  show "\<forall>y m d. date_pattern (y, m, d) =
              strftime_b m @ (if d < 10 then ''  '' else '' '') @ show_nat (nat d)"
    by (simp add: date_pattern_def)
qed

text \<open>
  The example of the specification, on 1 December 2026 with lookback \<open>1\<close>: the patterns
  are \<open>Dec  1\<close> and \<open>Nov 30\<close>; the lines of today and of yesterday are aggregated, the
  line of two days ago is not.
\<close>

theorem lookback_filter_witness:
  "''1'' \<noteq> [] \<and> list_all re_digit ''1'' \<and>
   int (nat_of_digits ''1'') < to_ordinal (2026, 12, 1) \<and>
   process_logs (2026, 12, 1)
     [''Dec  1 10:00:00 mail postfix/qmgr[1]: ABCDEF1234: from=<a@x.com>'',
      ''Nov 30 10:00:00 mail postfix/qmgr[1]: ABCDEF1235: from=<b@x.com>'',
      ''Nov 29 10:00:00 mail postfix/qmgr[1]: ABCDEF1236: from=<c@x.com>'']
     ''1'' None =
   Inr (foldl (aggregate_line ''1'') []
          (filter (\<lambda>line. \<exists>i\<le>nat_of_digits ''1''.
                      py_in (date_pattern ((prev_day ^^ i) (2026, 12, 1))) line)
             [''Dec  1 10:00:00 mail postfix/qmgr[1]: ABCDEF1234: from=<a@x.com>'',
              ''Nov 30 10:00:00 mail postfix/qmgr[1]: ABCDEF1235: from=<b@x.com>'',
              ''Nov 29 10:00:00 mail postfix/qmgr[1]: ABCDEF1236: from=<c@x.com>''])) \<and>
   date_pattern (2026, 12, 1) = ''Dec  1'' \<and>
   date_pattern (prev_day (2026, 12, 1)) = ''Nov 30'' \<and>
   process_logs (2026, 12, 1)
     [''Dec  1 10:00:00 mail postfix/qmgr[1]: ABCDEF1234: from=<a@x.com>'',
      ''Nov 30 10:00:00 mail postfix/qmgr[1]: ABCDEF1235: from=<b@x.com>'',
      ''Nov 29 10:00:00 mail postfix/qmgr[1]: ABCDEF1236: from=<c@x.com>'']
     ''1'' None =
   Inr [(''ABCDEF1234'', \<lparr>m_from = ''a@x.com'', m_to = ''-'', m_size = ''-'', m_status = ''-'',
                           m_sg = ''No'', m_time = ''1 Dec 10:00:00''\<rparr>),
        (''ABCDEF1235'', \<lparr>m_from = ''b@x.com'', m_to = ''-'', m_size = ''-'', m_status = ''-'',
                           m_sg = ''No'', m_time = ''30 Nov 10:00:00''\<rparr>)]"
  (is "?H1 \<and> ?H2 \<and> ?H3 \<and> ?C \<and> ?P0 \<and> ?P1 \<and> ?E")
proof -
  have h1: ?H1 by simp
  have h2: ?H2 by (simp add: re_digit_def)
  have h3: ?H3 by code_simp
  have c: ?C by (rule lookback_filter [OF h1 h2 h3, THEN conjunct1])
  have p0: ?P0 by code_simp
  have p1: ?P1 by code_simp
  have e: ?E by code_simp
  from h1 h2 h3 c p0 p1 e show ?thesis by (intro conjI)
qed

text \<open>
  Claim C4 is stated for every non-negative number. For a number of days that reaches
  back before year 1 the subtraction \<open>datetime.now() - timedelta(days=i)\<close> raises
  \<open>OverflowError\<close>, which the \<open>except ValueError\<close> clause does not catch: on 4 November 2026
  (ordinal 739924) the filter \<open>1000000\<close> ends \<open>process_logs\<close> with that error, and no line
  is processed.
\<close>

theorem lookback_overflow_counterexample:
  "to_ordinal (2026, 11, 4) = 739924 \<and>
   process_logs (2026, 11, 4)
     [''Nov  4 10:00:00 mail postfix/qmgr[1]: ABCDEF1234: from=<a@x.com>'']
     ''1000000'' None = Inl OverflowError"
proof
  show ord: "to_ordinal (2026, 11, 4) = 739924" by code_simp
  have d: "''1000000'' \<noteq> []" "list_all re_digit ''1000000''"
    by (simp_all add: re_digit_def)
  have sd: "parse_date_time_for_comparison (fst ((2026, 11, 4)::date)) ''1000000'' None = Inr None"
    using d by (rule digits_no_threshold)
  have v: "nat_of_digits ''1000000'' = 1000000"
    by (simp add: nat_of_digits_def digit_val_def)
  have n: "py_int ''1000000'' = Some 1000000"
    using digits_py_int [OF d] by (simp add: v)
  have "to_ordinal (2026, 11, 4) \<le> int 1000000" by (simp add: ord)
  moreover have "(1000000::nat) \<in> set [0..<Suc 1000000]" by (simp del: upt_Suc)
  ultimately have lp: "lookback_patterns (2026, 11, 4) [0..<Suc 1000000] = Inl OverflowError"
    by (rule lookback_patterns_overflow [rotated])
  have k: "nat (1000000 + 1) = Suc 1000000" by simp
  have dp: "parse_date_filter (2026, 11, 4) ''1000000'' = Inl OverflowError"
    by (simp only: parse_date_filter_def n k lp option.case sum.case list.distinct if_False)
  show "process_logs (2026, 11, 4)
     [''Nov  4 10:00:00 mail postfix/qmgr[1]: ABCDEF1234: from=<a@x.com>'']
     ''1000000'' None = Inl OverflowError"
    by (simp only: process_logs_def sd dp list.distinct not_False_eq_True if_True simp_thms
          sum.case)
qed

end
